theory Spec2Isabelle
  imports Main
begin

section \<open>JavaScript values shared by the two units\<close>

text \<open>
  Strings are character lists. An error object carries its \<open>message\<close>; a computation
  that may throw returns \<open>js_error + 'a\<close> with \<open>Inl\<close> for the thrown value.
\<close>

datatype js_error =
    Error (message: string)
  | TypeError (message: string)
  | SyntaxError (message: string)

text \<open>
  What \<open>JSON.parse\<close>, and so \<open>res.json()\<close>, can produce. The handlers never compute
  with a number, which is kept as its literal.
\<close>

datatype json =
    JNull
  | JBool bool
  | JNum string
  | JStr string
  | JArr "json list"
  | JObj "(string \<times> json) list"

text \<open>
  \<open>String.prototype.trim\<close> strips white space and line terminators from both ends. In the
  character range of \<open>string\<close> (code units below 256) these are TAB, LF, VT, FF, CR, SP
  and NBSP; the other Unicode spaces lie outside that range.
\<close>

definition is_white_space :: "char \<Rightarrow> bool" where
  "is_white_space c = (of_char c \<in> {9, 10, 11, 12, 13, 32, 160 :: nat})"

definition trim :: "string \<Rightarrow> string" where
  "trim s = rev (dropWhile is_white_space (rev (dropWhile is_white_space s)))"

text \<open>\<open>Array.prototype.join\<close> on an array of strings.\<close>

fun join :: "string \<Rightarrow> string list \<Rightarrow> string" where
  "join sep [] = []"
| "join sep [x] = x"
| "join sep (x # y # ys) = x @ sep @ join sep (y # ys)"

text \<open>
  A \<open>Set\<close> is kept as the list of its members in insertion order, which is the order
  in which the spread \<open>[...set]\<close> reads them back. \<open>new Set(iterable)\<close> adds the
  elements one by one; adding a member that is already present changes nothing.
\<close>

definition Set_add :: "'a list \<Rightarrow> 'a \<Rightarrow> 'a list" where
  "Set_add members x = (if x \<in> set members then members else members @ [x])"

definition new_Set :: "'a list \<Rightarrow> 'a list" where
  "new_Set iterable = foldl Set_add [] iterable"

text \<open>
  A resolved \<open>fetch\<close> gives a response with its \<open>ok\<close> flag, the outcome of
  \<open>await res.json()\<close> and the outcome of a later \<open>await res.text()\<close> on the same
  response. \<open>fetch\<close> itself may reject.
\<close>

datatype 'b response =
  Response (ok: bool) (json: "js_error + 'b") (res_text: "js_error + string")

type_synonym 'b fetch_result = "js_error + 'b response"


section \<open>Mail dispatcher: \<open>backend/config/mailer.js\<close>\<close>

datatype mail = Mail (mail_from: string) (mail_to: string) (mail_subject: string) (mail_html: string)

datatype send_data = SendData (id': string)

datatype send_response = SendResponse (response_data: "send_data option") (response_error: "string option")

text \<open>
  A promise can reject with any value: \<open>undefined\<close>, \<open>null\<close>, an error object, or some
  other value, which has no \<open>message\<close>. It can also resolve with \<open>undefined\<close> or \<open>null\<close>
  in place of a response (\<open>None\<close> below).
\<close>

datatype rejection = RejectUndefined | RejectNull | RejectError js_error | RejectOther

datatype console_arg =
    LogStr string
  | LogErr js_error
  | LogResponse "send_response option"
  | LogUndefined

datatype console = ConsoleLog "console_arg list" | ConsoleErr "console_arg list"

text \<open>
  \<open>sendMail\<close> is an async function: its result is how the returned promise settles,
  \<open>Inr ()\<close> for fulfilled with \<open>undefined\<close> and \<open>Inl e\<close> for rejected with \<open>e\<close>,
  together with what was written to the console. The provider call
  \<open>resend.emails.send\<close> is a parameter: it resolves with a response (whose \<open>data\<close> is
  \<open>null\<close> when the provider reports an error) or rejects.

  The \<open>catch\<close> block reads \<open>error.message\<close>. On \<open>undefined\<close> and \<open>null\<close> that read
  throws a \<open>TypeError\<close>, which nothing catches: the promise of \<open>sendMail\<close> rejects.
\<close>

definition sendMail_catch :: "rejection \<Rightarrow> (js_error + unit) \<times> console list" where
  "sendMail_catch error =
     (case error of
        RejectUndefined \<Rightarrow>
          (Inl (TypeError ''Cannot read properties of undefined (reading message)''), [])
      | RejectNull \<Rightarrow>
          (Inl (TypeError ''Cannot read properties of null (reading message)''), [])
      | RejectError e \<Rightarrow>
          (Inr (), [ConsoleErr [LogStr ''Email error:'', LogStr (message e)]])
      | RejectOther \<Rightarrow>
          (Inr (), [ConsoleErr [LogStr ''Email error:'', LogUndefined]]))"

text \<open>
  In the \<open>try\<close> block, \<open>response.data\<close> on a response of \<open>undefined\<close> or \<open>null\<close> throws
  a \<open>TypeError\<close> after the response has been logged; that error object goes to the
  \<open>catch\<close> block like a rejection of the provider call.
\<close>

definition sendMail ::
  "(mail \<Rightarrow> rejection + send_response option) \<Rightarrow> string \<Rightarrow> string \<Rightarrow> string \<Rightarrow> string
     \<Rightarrow> (js_error + unit) \<times> console list" where
  "sendMail emails_send to from subject html =
     (case emails_send (Mail from to subject html) of
        Inr (Some response) \<Rightarrow>
          (Inr (),
           [ConsoleLog [LogResponse (Some response)],
            ConsoleLog [LogStr ''Email sent:'',
              LogStr (case response_data response of
                        None \<Rightarrow> ''OK''
                      | Some d \<Rightarrow> if id' d = [] then ''OK'' else id' d)]])
      | Inr None \<Rightarrow>
          (let (settled, logged) =
                 sendMail_catch
                   (RejectError (TypeError ''Cannot read properties of undefined (reading data)''))
           in (settled, ConsoleLog [LogResponse None] # logged))
      | Inl error \<Rightarrow> sendMail_catch error)"


section \<open>Upload form controller: \<open>frontend/src/Components/UploadMemoryDialog.js\<close>\<close>

subsection \<open>Component state\<close>

definition availableTags :: "string list" where
  "availableTags =
     [''Birthday'', ''Festival'', ''Vacation'', ''Achievement'', ''Family Gathering'',
      ''Anniversary'', ''Graduation'', ''Wedding'']"

definition FASTAPI_URL :: string where
  "FASTAPI_URL = ''http://127.0.0.1:8000/predict-tags/''"

datatype js_file = File (file_name: string)

text \<open>
  The \<open>file\<close> state starts as \<open>null\<close>; the file input stores \<open>e.target.files[0]\<close>,
  which is \<open>undefined\<close> when the selection is empty.
\<close>

datatype file_state = FileNull | FileUndefined | FileObj js_file

text \<open>
  The draft. Its field \<open>text\<close> (the title) is written \<open>text'\<close>, and the \<open>file\<close> state
  \<open>file'\<close>.
\<close>

record form_data =
  text' :: string
  description :: string
  upload_date :: string
  tags :: "string list"

record dialog_state =
  file' :: file_state
  isUploading :: bool
  isGeneratingTags :: bool
  formData :: form_data

text \<open>
  The initial state of the hooks. \<open>today\<close> stands for the value of
  \<open>new Date().toISOString().split("T")[0]\<close> when it is evaluated.
\<close>

definition initial_state :: "string \<Rightarrow> dialog_state" where
  "initial_state today =
     \<lparr>file' = FileNull, isUploading = False, isGeneratingTags = False,
      formData = \<lparr>text' = '''', description = '''', upload_date = today, tags = []\<rparr>\<rparr>"

subsection \<open>What a handler does to the outside\<close>

datatype js_value = StrV string | FileV js_file | UndefinedV | JsonV json

type_synonym entries = "(string \<times> js_value) list"

datatype predict_body = PredictBody (title: string) (body_description: string) (top_k: nat)

datatype prediction = Prediction (tag: string)

text \<open>
  \<open>urlImage.media\<close> on the parsed body of the upload response. Reading a property of
  \<open>null\<close> throws. An object gives the value of its \<open>media\<close> member (the last one, if the
  text repeated the key) or \<open>undefined\<close>; a boolean, a number, a string or an array has
  no \<open>media\<close> property.
\<close>

fun of_json :: "json \<Rightarrow> js_value" where
  "of_json (JStr str) = StrV str"
| "of_json other = JsonV other"

definition read_media :: "json \<Rightarrow> js_error + js_value" where
  "read_media urlImage =
     (case urlImage of
        JNull \<Rightarrow> Inl (TypeError ''Cannot read properties of null (reading media)'')
      | JObj members \<Rightarrow>
          Inr (case map_of (rev members) ''media'' of
                 None \<Rightarrow> UndefinedV
               | Some v \<Rightarrow> of_json v)
      | _ \<Rightarrow> Inr UndefinedV)"

datatype effect =
    PreventDefault
  | Alert string
  | ConsoleError "console_arg list"
  | Fetch_predict_tags string predict_body
  | Fetch_add_media string entries
  | OnSuccess entries
  | OnClose

subsection \<open>\<open>handleTagToggle\<close>\<close>

definition handleTagToggle :: "string \<Rightarrow> dialog_state \<Rightarrow> dialog_state" where
  "handleTagToggle t s =
     s\<lparr>formData :=
         (let prev = formData s in
          prev\<lparr>tags :=
                 (if t \<in> set (tags prev)
                  then filter (\<lambda>u. u \<noteq> t) (tags prev)
                  else tags prev @ [t])\<rparr>)\<rparr>"

subsection \<open>\<open>handleGenerateTags\<close>\<close>

text \<open>
  The \<open>try\<close> block after the request has been issued: the state and the effects it
  reaches, and the value it throws, if any. \<open>fetched\<close> is how \<open>fetch(FASTAPI_URL, ...)\<close>
  settles; the tagging service answers with a sequence of records with a \<open>tag\<close>.
\<close>

definition generateTags_try ::
  "prediction list fetch_result \<Rightarrow> dialog_state \<Rightarrow> (dialog_state \<times> effect list) \<times> js_error option" where
  "generateTags_try fetched s =
     (case fetched of
        Inl err \<Rightarrow> ((s, []), Some err)
      | Inr res \<Rightarrow>
          (case json res of
             Inl err \<Rightarrow> ((s, []), Some err)
           | Inr data \<Rightarrow>
               if ok res then
                 (let aiTags = map tag data;
                      prev = formData s
                  in ((s\<lparr>formData := prev\<lparr>tags := new_Set (tags prev @ aiTags)\<rparr>\<rparr>,
                       [Alert (''AI suggested tags: '' @ join '', '' aiTags)]), None))
               else ((s, [Alert ''Failed to generate tags from AI'']), None)))"

definition handleGenerateTags ::
  "prediction list fetch_result \<Rightarrow> dialog_state \<Rightarrow> dialog_state \<times> effect list" where
  "handleGenerateTags fetched s =
     (if trim (text' (formData s)) = [] \<and> trim (description (formData s)) = [] then
        (s, [Alert ''Please enter a title or description first!''])
      else
        (let s1 = s\<lparr>isGeneratingTags := True\<rparr>;
             request = Fetch_predict_tags FASTAPI_URL
                         (PredictBody (text' (formData s)) (description (formData s)) 5);
             ((s2, fx), thrown) = generateTags_try fetched s1;
             caught = (case thrown of
                         None \<Rightarrow> []
                       | Some err \<Rightarrow>
                           [ConsoleError [LogErr err],
                            Alert ''Error connecting to AI Tag Generator''])
         in (s2\<lparr>isGeneratingTags := False\<rparr>, request # fx @ caught)))"

subsection \<open>\<open>handleClose\<close>\<close>

definition handleClose :: "string \<Rightarrow> dialog_state \<Rightarrow> dialog_state \<times> effect list" where
  "handleClose today s =
     (s\<lparr>formData := \<lparr>text' = '''', description = '''', upload_date = today, tags = []\<rparr>,
        file' := FileNull\<rparr>,
      [OnClose])"

subsection \<open>\<open>handleSubmit\<close>\<close>

text \<open>\<open>FormData.append\<close>, and the payload built at the start of the \<open>try\<close> block.\<close>

definition append_entry :: "entries \<Rightarrow> string \<Rightarrow> js_value \<Rightarrow> entries" where
  "append_entry fd name v = fd @ [(name, v)]"

definition formDataToSend :: "form_data \<Rightarrow> file_state \<Rightarrow> entries" where
  "formDataToSend fd f =
     (let d1 = append_entry [] ''text'' (StrV (text' fd));
          d2 = append_entry d1 ''description'' (StrV (description fd));
          d3 = foldl (\<lambda>d t. append_entry d ''tags'' (StrV t)) d2 (tags fd);
          d4 = append_entry d3 ''tags_input'' (StrV (join '' '' (tags fd)))
      in case f of FileObj x \<Rightarrow> append_entry d4 ''files'' (FileV x) | _ \<Rightarrow> d4)"

text \<open>
  Objects are association lists in property order: assigning an existing key replaces
  its value in place, a new key goes to the end. \<open>Object.fromEntries\<close> assigns the
  entries in order; a spread followed by further properties assigns those after.
\<close>

fun obj_set :: "entries \<Rightarrow> string \<Rightarrow> js_value \<Rightarrow> entries" where
  "obj_set [] k v = [(k, v)]"
| "obj_set ((k', v') # kvs) k v =
     (if k' = k then (k, v) # kvs else (k', v') # obj_set kvs k v)"

definition fromEntries :: "entries \<Rightarrow> entries" where
  "fromEntries es = foldl (\<lambda>obj (k, v). obj_set obj k v) [] es"

definition obj_get :: "entries \<Rightarrow> string \<Rightarrow> js_value" where
  "obj_get obj k = (case map_of obj k of None \<Rightarrow> UndefinedV | Some v \<Rightarrow> v)"

text \<open>
  The \<open>try\<close> block after the request has been issued. \<open>formData\<close> and \<open>file\<close> are
  the values the handler closed over, so the payload and the callback argument are built
  from the draft as it was when the handler started. In the success branch the argument
  of \<open>onSuccess\<close> is built after the success alert; when reading \<open>urlImage.media\<close> throws,
  neither \<open>onSuccess\<close> nor \<open>handleClose\<close> is called. In the failure branch the response
  body is read a second time with \<open>res.text()\<close>, which may reject.
\<close>

definition submit_try ::
  "string \<Rightarrow> json fetch_result \<Rightarrow> entries \<Rightarrow> form_data \<Rightarrow> dialog_state
     \<Rightarrow> (dialog_state \<times> effect list) \<times> js_error option" where
  "submit_try today fetched sent fd s =
     (case fetched of
        Inl err \<Rightarrow> ((s, []), Some err)
      | Inr res \<Rightarrow>
          (case json res of
             Inl err \<Rightarrow> ((s, []), Some err)
           | Inr urlImage \<Rightarrow>
               if ok res then
                 (let formDataObj = fromEntries sent in
                  case read_media urlImage of
                    Inl err \<Rightarrow> ((s, [Alert ''Memory uploaded successfully!'']), Some err)
                  | Inr media \<Rightarrow>
                      (let arg = obj_set
                                   (obj_set formDataObj ''tags'' (StrV (join '', '' (tags fd))))
                                   ''media'' media;
                           (s', closed) = handleClose today s
                       in ((s', [Alert ''Memory uploaded successfully!'', OnSuccess arg] @ closed),
                           None)))
               else
                 (case res_text res of
                    Inl err \<Rightarrow> ((s, []), Some err)
                  | Inr body \<Rightarrow>
                      ((s, [ConsoleError [LogStr ''Upload failed:'', LogStr body],
                            Alert ''Failed to upload memory'']), None))))"

text \<open>
  \<open>BACKEND_URL\<close> is the base address read from the configuration module.
\<close>

definition handleSubmit ::
  "string \<Rightarrow> string \<Rightarrow> json fetch_result \<Rightarrow> dialog_state
     \<Rightarrow> dialog_state \<times> effect list" where
  "handleSubmit BACKEND_URL today fetched s =
     (let s1 = s\<lparr>isUploading := True\<rparr>;
          sent = formDataToSend (formData s) (file' s);
          request = Fetch_add_media (BACKEND_URL @ ''/add-media'') sent;
          ((s2, fx), thrown) = submit_try today fetched sent (formData s) s1;
          caught = (case thrown of
                      None \<Rightarrow> []
                    | Some err \<Rightarrow>
                        [ConsoleError [LogErr err],
                         Alert ''Something went wrong while uploading''])
      in (s2\<lparr>isUploading := False\<rparr>, PreventDefault # request # fx @ caught))"

subsection \<open>The field editors and the controller as a transition system\<close>

definition onChange_text :: "string \<Rightarrow> dialog_state \<Rightarrow> dialog_state" where
  "onChange_text v s = s\<lparr>formData := (formData s)\<lparr>text' := v\<rparr>\<rparr>"

definition onChange_description :: "string \<Rightarrow> dialog_state \<Rightarrow> dialog_state" where
  "onChange_description v s = s\<lparr>formData := (formData s)\<lparr>description := v\<rparr>\<rparr>"

definition onChange_upload_date :: "string \<Rightarrow> dialog_state \<Rightarrow> dialog_state" where
  "onChange_upload_date v s = s\<lparr>formData := (formData s)\<lparr>upload_date := v\<rparr>\<rparr>"

definition onChange_file :: "js_file option \<Rightarrow> dialog_state \<Rightarrow> dialog_state" where
  "onChange_file files0 s =
     s\<lparr>file' := (case files0 of None \<Rightarrow> FileUndefined | Some f \<Rightarrow> FileObj f)\<rparr>"

datatype action =
    EditText string
  | EditDescription string
  | EditUploadDate string
  | EditFile "js_file option"
  | TagToggle string
  | GenerateTags "prediction list fetch_result"
  | Submit string string "json fetch_result"
  | Close string

fun step :: "dialog_state \<Rightarrow> action \<Rightarrow> dialog_state" where
  "step s (EditText v) = onChange_text v s"
| "step s (EditDescription v) = onChange_description v s"
| "step s (EditUploadDate v) = onChange_upload_date v s"
| "step s (EditFile f) = onChange_file f s"
| "step s (TagToggle t) = handleTagToggle t s"
| "step s (GenerateTags fetched) = fst (handleGenerateTags fetched s)"
| "step s (Submit url today fetched) = fst (handleSubmit url today fetched s)"
| "step s (Close today) = fst (handleClose today s)"

definition run :: "string \<Rightarrow> action list \<Rightarrow> dialog_state" where
  "run today acts = foldl step (initial_state today) acts"

text \<open>The network requests among the effects of a handler.\<close>

fun is_fetch :: "effect \<Rightarrow> bool" where
  "is_fetch (Fetch_predict_tags url body) = True"
| "is_fetch (Fetch_add_media url body) = True"
| "is_fetch other = False"

definition network_calls :: "effect list \<Rightarrow> effect list" where
  "network_calls fx = filter is_fetch fx"


section \<open>Auxiliary facts\<close>

lemma set_foldl_Set_add: "set (foldl Set_add acc xs) = set acc \<union> set xs"
  by (induction xs arbitrary: acc) (auto simp: Set_add_def)

lemma distinct_foldl_Set_add: "distinct acc \<Longrightarrow> distinct (foldl Set_add acc xs)"
  by (induction xs arbitrary: acc) (auto simp: Set_add_def)

lemma set_new_Set: "set (new_Set xs) = set xs"
  by (simp add: new_Set_def set_foldl_Set_add)

lemma distinct_new_Set: "distinct (new_Set xs)"
  by (simp add: new_Set_def distinct_foldl_Set_add)

lemma dropWhile_all_iff: "(\<forall>c \<in> set (dropWhile P s). P c) \<longleftrightarrow> (\<forall>c \<in> set s. P c)"
proof
  assume rest: "\<forall>c \<in> set (dropWhile P s). P c"
  have "dropWhile P s = []"
  proof (cases "dropWhile P s")
    case (Cons y ys)
    then have "\<not> P y" using hd_dropWhile [of P s] by simp
    moreover have "P y" using rest Cons by simp
    ultimately show ?thesis by simp
  qed simp
  then show "\<forall>c \<in> set s. P c" by (simp add: dropWhile_eq_Nil_conv)
next
  assume "\<forall>c \<in> set s. P c"
  then show "\<forall>c \<in> set (dropWhile P s). P c" by (auto dest: set_dropWhileD)
qed

lemma trim_eq_Nil_iff: "trim s = [] \<longleftrightarrow> list_all is_white_space s"
  by (simp add: trim_def dropWhile_eq_Nil_conv dropWhile_all_iff list_all_iff)

lemma foldl_append_entry:
  "foldl (\<lambda>d t. append_entry d k (f t)) acc ts = acc @ map (\<lambda>t. (k, f t)) ts"
  by (induction ts arbitrary: acc) (simp_all add: append_entry_def)

lemma formDataToSend_eq:
  "formDataToSend fd f =
     [(''text'', StrV (text' fd)), (''description'', StrV (description fd))]
     @ map (\<lambda>t. (''tags'', StrV t)) (tags fd)
     @ [(''tags_input'', StrV (join '' '' (tags fd)))]
     @ (case f of FileObj x \<Rightarrow> [(''files'', FileV x)] | _ \<Rightarrow> [])"
  unfolding formDataToSend_def Let_def foldl_append_entry
  by (simp add: append_entry_def split: file_state.splits)

lemma tags_toggle:
  "tags (formData (handleTagToggle t s)) =
     (if t \<in> set (tags (formData s)) then filter (\<lambda>u. u \<noteq> t) (tags (formData s))
      else tags (formData s) @ [t])"
  by (simp add: handleTagToggle_def Let_def)

lemma tags_generateTags:
  "tags (formData (fst (handleGenerateTags fetched s))) = tags (formData s) \<or>
   (\<exists>ai. tags (formData (fst (handleGenerateTags fetched s))) = new_Set (tags (formData s) @ ai))"
  by (auto simp: handleGenerateTags_def generateTags_try_def Let_def split: sum.splits)

lemma tags_submit:
  "tags (formData (fst (handleSubmit url today fetched s))) = tags (formData s) \<or>
   tags (formData (fst (handleSubmit url today fetched s))) = []"
  by (auto simp: handleSubmit_def submit_try_def handleClose_def Let_def split: sum.splits)

lemma join_eq:
  "join sep xs = (case xs of [] \<Rightarrow> [] | t # ts \<Rightarrow> t @ concat (map (\<lambda>u. sep @ u) ts))"
  by (induction sep xs rule: join.induct) simp_all


lemma submit_null_body:
  assumes "fetched = Inr res" and "ok res" and "json res = Inr JNull"
  shows "handleSubmit BACKEND_URL today fetched s =
           (s\<lparr>isUploading := False\<rparr>,
            [PreventDefault,
             Fetch_add_media (BACKEND_URL @ ''/add-media'') (formDataToSend (formData s) (file' s)),
             Alert ''Memory uploaded successfully!'',
             ConsoleError [LogErr (TypeError ''Cannot read properties of null (reading media)'')],
             Alert ''Something went wrong while uploading''])"
  using assms
  by (simp add: handleSubmit_def submit_try_def read_media_def Let_def)

lemma step_distinct:
  "distinct (tags (formData s)) \<Longrightarrow> distinct (tags (formData (step s a)))"
proof (cases a)
  case (TagToggle t)
  assume "distinct (tags (formData s))"
  then show ?thesis using TagToggle by (simp add: tags_toggle)
next
  case (GenerateTags fetched)
  assume "distinct (tags (formData s))"
  then show ?thesis using GenerateTags tags_generateTags [of fetched s]
    by (auto simp: distinct_new_Set)
next
  case (Submit url today fetched)
  assume "distinct (tags (formData s))"
  then show ?thesis using Submit tags_submit [of url today fetched s] by auto
qed (simp_all add: onChange_text_def onChange_description_def onChange_upload_date_def
       onChange_file_def handleClose_def)

lemma foldl_step_distinct:
  "distinct (tags (formData s)) \<Longrightarrow> distinct (tags (formData (foldl step s acts)))"
  by (induction acts arbitrary: s) (simp_all add: step_distinct)

section \<open>Mail dispatcher: what reaches the caller\<close>

text \<open>
  Whenever the provider call resolves, or rejects with anything but \<open>undefined\<close> or
  \<open>null\<close>, the promise of \<open>sendMail\<close> is fulfilled with \<open>undefined\<close>.
\<close>

lemma sendMail_fulfils:
  assumes "emails_send (Mail from to subject html) \<noteq> Inl RejectUndefined"
    and "emails_send (Mail from to subject html) \<noteq> Inl RejectNull"
  shows "fst (sendMail emails_send to from subject html) = Inr ()"
  using assms
  by (auto simp: sendMail_def sendMail_catch_def split: sum.splits option.splits rejection.splits)



section \<open>Upload form controller: tags\<close>

text \<open>
  C6. For every tag list and every tag \<open>t\<close>, toggling \<open>t\<close> twice gives back the same set
  of tags, and touches nothing else of the state. (As a list the tags may come back in
  another order: a tag that was present is removed and then added at the end.)
\<close>

theorem toggle_twice_same_set:
  "\<exists>ts. handleTagToggle t (handleTagToggle t s) = s\<lparr>formData := (formData s)\<lparr>tags := ts\<rparr>\<rparr> \<and>
        set ts = set (tags (formData s))"
proof (cases "t \<in> set (tags (formData s))")
  case True
  then have "handleTagToggle t (handleTagToggle t s) =
               s\<lparr>formData := (formData s)\<lparr>tags := filter (\<lambda>u. u \<noteq> t) (tags (formData s)) @ [t]\<rparr>\<rparr>"
    by (simp add: handleTagToggle_def Let_def)
  moreover have "set (filter (\<lambda>u. u \<noteq> t) (tags (formData s)) @ [t]) = set (tags (formData s))"
    using True by auto
  ultimately show ?thesis by blast
next
  case False
  then have unchanged: "filter (\<lambda>u. u \<noteq> t) (tags (formData s)) = tags (formData s)"
    by (simp add: filter_id_conv) blast
  have "handleTagToggle t (handleTagToggle t s) =
          s\<lparr>formData := (formData s)\<lparr>tags := tags (formData s)\<rparr>\<rparr>"
    using False by (simp add: handleTagToggle_def Let_def unchanged)
  then show ?thesis by (intro exI [of _ "tags (formData s)"] conjI refl)
qed

text \<open>
  C3. When \<open>generateTags\<close> passes its guard and the tagging service answers with HTTP
  success and the suggestions \<open>data\<close>, the new tag list holds exactly the tags that were
  there before together with the suggested ones, each once. The witness is the case of
  the tags \<open>["Birthday"]\<close> and the answer \<open>[{tag:"Birthday"},{tag:"Outdoor"}]\<close>, where the
  result is \<open>["Birthday","Outdoor"]\<close>.
\<close>

theorem generateTags_merges_union:
  assumes "\<not> (trim (text' (formData s)) = [] \<and> trim (description (formData s)) = [])"
    and "fetched = Inr res" and "ok res" and "json res = Inr data"
  shows "set (tags (formData (fst (handleGenerateTags fetched s)))) =
           set (tags (formData s)) \<union> set (map tag data) \<and>
         distinct (tags (formData (fst (handleGenerateTags fetched s))))"
  using assms
  by (auto simp: handleGenerateTags_def generateTags_try_def Let_def set_new_Set distinct_new_Set)

theorem generateTags_merges_union_witness:
  "\<not> (trim (text' (formData
         \<lparr>file' = FileNull, isUploading = False, isGeneratingTags = False,
          formData = \<lparr>text' = ''Party'', description = '''', upload_date = ''2024-05-01'',
                      tags = [''Birthday'']\<rparr>\<rparr>)) = [] \<and>
       trim (description (formData
         \<lparr>file' = FileNull, isUploading = False, isGeneratingTags = False,
          formData = \<lparr>text' = ''Party'', description = '''', upload_date = ''2024-05-01'',
                      tags = [''Birthday'']\<rparr>\<rparr>)) = []) \<and>
   ok (Response True (Inr [Prediction ''Birthday'', Prediction ''Outdoor''])
         (Inl (Error ''body stream already read''))) \<and>
   set (tags (formData (fst (handleGenerateTags
      (Inr (Response True (Inr [Prediction ''Birthday'', Prediction ''Outdoor''])
              (Inl (Error ''body stream already read''))))
      \<lparr>file' = FileNull, isUploading = False, isGeneratingTags = False,
       formData = \<lparr>text' = ''Party'', description = '''', upload_date = ''2024-05-01'',
                   tags = [''Birthday'']\<rparr>\<rparr>)))) = {''Birthday'', ''Outdoor''} \<and>
   tags (formData (fst (handleGenerateTags
      (Inr (Response True (Inr [Prediction ''Birthday'', Prediction ''Outdoor''])
              (Inl (Error ''body stream already read''))))
      \<lparr>file' = FileNull, isUploading = False, isGeneratingTags = False,
       formData = \<lparr>text' = ''Party'', description = '''', upload_date = ''2024-05-01'',
                   tags = [''Birthday'']\<rparr>\<rparr>))) = [''Birthday'', ''Outdoor'']"
proof -
  let ?res = "Response True (Inr [Prediction ''Birthday'', Prediction ''Outdoor''])
                (Inl (Error ''body stream already read''))"
  let ?s = "\<lparr>file' = FileNull, isUploading = False, isGeneratingTags = False,
             formData = \<lparr>text' = ''Party'', description = '''', upload_date = ''2024-05-01'',
                         tags = [''Birthday'']\<rparr>\<rparr>"
  have guard: "\<not> (trim (text' (formData ?s)) = [] \<and> trim (description (formData ?s)) = [])"
    by (simp add: trim_def is_white_space_def)
  have union: "set (tags (formData (fst (handleGenerateTags (Inr ?res) ?s)))) =
                 set (tags (formData ?s)) \<union>
                 set (map tag [Prediction ''Birthday'', Prediction ''Outdoor''])"
    using generateTags_merges_union [OF guard, of "Inr ?res" ?res
        "[Prediction ''Birthday'', Prediction ''Outdoor'']"]
    by simp
  have exact: "tags (formData (fst (handleGenerateTags (Inr ?res) ?s))) = [''Birthday'', ''Outdoor'']"
    using guard
    by (simp add: handleGenerateTags_def generateTags_try_def Let_def new_Set_def Set_add_def)
  from guard union exact show ?thesis by simp
qed

text \<open>
  C10. The tag list of the draft never holds a tag twice: it is duplicate-free after
  every sequence of user actions from the initial state, and every single action (a field
  edit, a tag toggle, tag generation whatever the service answers, a submission whatever
  the server answers, closing) takes a duplicate-free tag list to a duplicate-free one.
\<close>

theorem tags_never_duplicate:
  "distinct (tags (formData (run today acts))) \<and>
   (distinct (tags (formData s)) \<longrightarrow> distinct (tags (formData (step s a))))"
  by (simp add: run_def foldl_step_distinct initial_state_def step_distinct)

theorem tags_never_duplicate_witness:
  "distinct (tags (formData (run ''2024-05-01''
      [EditText ''Party'', TagToggle ''Birthday'',
       GenerateTags (Inr (Response True (Inr [Prediction ''Birthday'', Prediction ''Outdoor''])
                            (Inl (Error ''body stream already read'')))),
       TagToggle ''Birthday'']))) \<and>
   distinct (tags (formData
      \<lparr>file' = FileNull, isUploading = False, isGeneratingTags = False,
       formData = \<lparr>text' = ''Party'', description = '''', upload_date = ''2024-05-01'',
                   tags = [''Birthday'', ''Outdoor'']\<rparr>\<rparr>)) \<and>
   distinct (tags (formData (step
      \<lparr>file' = FileNull, isUploading = False, isGeneratingTags = False,
       formData = \<lparr>text' = ''Party'', description = '''', upload_date = ''2024-05-01'',
                   tags = [''Birthday'', ''Outdoor'']\<rparr>\<rparr>
      (TagToggle ''Festival''))))"
proof -
  let ?s = "\<lparr>file' = FileNull, isUploading = False, isGeneratingTags = False,
             formData = \<lparr>text' = ''Party'', description = '''', upload_date = ''2024-05-01'',
                         tags = [''Birthday'', ''Outdoor'']\<rparr>\<rparr>"
  have pre: "distinct (tags (formData ?s))" by simp
  show ?thesis
    using pre tags_never_duplicate [of "''2024-05-01''"
        "[EditText ''Party'', TagToggle ''Birthday'',
          GenerateTags (Inr (Response True (Inr [Prediction ''Birthday'', Prediction ''Outdoor''])
                               (Inl (Error ''body stream already read'')))),
          TagToggle ''Birthday'']" ?s "TagToggle ''Festival''"]
    by blast
qed

section \<open>Upload form controller: tag generation\<close>

text \<open>
  C4, as the code has it. The guard of \<open>generateTags\<close> looks at the trimmed title and
  description. When both consist of white space only (in particular when both are
  empty), the handler shows the validation alert and does nothing else: no request, no
  change of state. In every other case it issues exactly one request, to the tagging
  service, carrying the title, the description and \<open>top_k = 5\<close>.
\<close>

theorem generateTags_guard:
  "(list_all is_white_space (text' (formData s)) \<and>
    list_all is_white_space (description (formData s)) \<longrightarrow>
      handleGenerateTags fetched s = (s, [Alert ''Please enter a title or description first!''])) \<and>
   network_calls (snd (handleGenerateTags fetched s)) =
     (if list_all is_white_space (text' (formData s)) \<and>
         list_all is_white_space (description (formData s))
      then []
      else [Fetch_predict_tags FASTAPI_URL
              (PredictBody (text' (formData s)) (description (formData s)) 5)])"
  by (auto simp: handleGenerateTags_def generateTags_try_def network_calls_def Let_def
        trim_eq_Nil_iff split: sum.splits)

theorem generateTags_guard_witness:
  "list_all is_white_space (text' (formData (onChange_text ''  '' (initial_state ''2024-05-01'')))) \<and>
   list_all is_white_space (description (formData (onChange_text ''  '' (initial_state ''2024-05-01'')))) \<and>
   handleGenerateTags (Inr (Response True (Inr [Prediction ''Birthday'']) (Inl (Error ''body stream already read''))))
       (onChange_text ''  '' (initial_state ''2024-05-01'')) =
     (onChange_text ''  '' (initial_state ''2024-05-01''),
      [Alert ''Please enter a title or description first!''])"
proof -
  let ?s = "onChange_text ''  '' (initial_state ''2024-05-01'')"
  have blank: "list_all is_white_space (text' (formData ?s)) \<and>
               list_all is_white_space (description (formData ?s))"
    by (simp add: onChange_text_def initial_state_def is_white_space_def)
  with generateTags_guard [of ?s
      "Inr (Response True (Inr [Prediction ''Birthday'']) (Inl (Error ''body stream already read'')))"]
  show ?thesis by blast
qed

text \<open>
  The claim as it is worded fails for a title of two spaces and an empty description: the
  title is not empty, and yet no request is issued.
\<close>

theorem generateTags_nonempty_counterexample:
  "text' (formData (onChange_text ''  '' (initial_state ''2024-05-01''))) \<noteq> '''' \<and>
   network_calls (snd (handleGenerateTags
       (Inr (Response True (Inr [Prediction ''Birthday'']) (Inl (Error ''body stream already read''))))
       (onChange_text ''  '' (initial_state ''2024-05-01'')))) = []"
  by (simp add: handleGenerateTags_def onChange_text_def initial_state_def trim_def
        is_white_space_def network_calls_def)

text \<open>
  C9. When \<open>generateTags\<close> has passed its guard and the request fails (the \<open>fetch\<close>
  rejects, the body cannot be read as JSON, or the status is not a success), a failure
  alert is shown, the draft and the selected file are as before, and the
  generating-tags flag is cleared.
\<close>

theorem generateTags_failure_keeps_draft:
  assumes "\<not> (trim (text' (formData s)) = [] \<and> trim (description (formData s)) = [])"
    and "case fetched of Inl err \<Rightarrow> True | Inr res \<Rightarrow> \<not> ok res \<or> isl (json res)"
  shows "fst (handleGenerateTags fetched s) = s\<lparr>isGeneratingTags := False\<rparr> \<and>
         (Alert ''Failed to generate tags from AI'' \<in> set (snd (handleGenerateTags fetched s)) \<or>
          Alert ''Error connecting to AI Tag Generator'' \<in> set (snd (handleGenerateTags fetched s)))"
  using assms
  by (auto simp: handleGenerateTags_def generateTags_try_def Let_def split: sum.splits)

theorem generateTags_failure_keeps_draft_witness:
  "\<not> (trim (text' (formData (handleTagToggle ''Wedding'' (onChange_text ''Party'' (initial_state ''2024-05-01''))))) = [] \<and>
       trim (description (formData (handleTagToggle ''Wedding'' (onChange_text ''Party'' (initial_state ''2024-05-01''))))) = []) \<and>
   (case (Inl (Error ''Failed to fetch'') :: prediction list fetch_result) of
      Inl err \<Rightarrow> True | Inr res \<Rightarrow> \<not> ok res \<or> isl (json res)) \<and>
   fst (handleGenerateTags (Inl (Error ''Failed to fetch''))
          (handleTagToggle ''Wedding'' (onChange_text ''Party'' (initial_state ''2024-05-01'')))) =
     (handleTagToggle ''Wedding'' (onChange_text ''Party'' (initial_state ''2024-05-01'')))
       \<lparr>isGeneratingTags := False\<rparr> \<and>
   tags (formData (fst (handleGenerateTags (Inl (Error ''Failed to fetch''))
          (handleTagToggle ''Wedding'' (onChange_text ''Party'' (initial_state ''2024-05-01'')))))) =
     [''Wedding'']"
proof -
  let ?s = "handleTagToggle ''Wedding'' (onChange_text ''Party'' (initial_state ''2024-05-01''))"
  let ?fetched = "Inl (Error ''Failed to fetch'') :: prediction list fetch_result"
  have guard: "\<not> (trim (text' (formData ?s)) = [] \<and> trim (description (formData ?s)) = [])"
    by (simp add: handleTagToggle_def onChange_text_def initial_state_def trim_def
          is_white_space_def)
  have failed: "case ?fetched of Inl err \<Rightarrow> True | Inr res \<Rightarrow> \<not> ok res \<or> isl (json res)"
    by simp
  have kept: "fst (handleGenerateTags ?fetched ?s) = ?s\<lparr>isGeneratingTags := False\<rparr>"
    using generateTags_failure_keeps_draft [OF guard failed] by simp
  have "tags (formData (?s\<lparr>isGeneratingTags := False\<rparr>)) = [''Wedding'']"
    by (simp add: handleTagToggle_def onChange_text_def initial_state_def)
  with guard failed kept show ?thesis by simp
qed

section \<open>Upload form controller: submission\<close>

text \<open>
  C7. Whatever the draft, and however the request ends, \<open>submit\<close> issues exactly one
  request, to \<open>BACKEND_URL/add-media\<close>, and its multipart body is, in this order: the
  title under \<open>text\<close>, the description under \<open>description\<close>, one \<open>tags\<close> field per tag
  in the order of the tag list, under \<open>tags_input\<close> the tags joined by a space (the
  empty string when there is no tag, otherwise the first tag followed by every later tag
  with a space before it), and the file under \<open>files\<close> when a file is selected and no
  such field otherwise.
\<close>

theorem submit_payload:
  "network_calls (snd (handleSubmit BACKEND_URL today fetched s)) =
     [Fetch_add_media (BACKEND_URL @ ''/add-media'')
        ([(''text'', StrV (text' (formData s))),
          (''description'', StrV (description (formData s)))]
         @ map (\<lambda>t. (''tags'', StrV t)) (tags (formData s))
         @ [(''tags_input'',
             StrV (case tags (formData s) of
                     [] \<Rightarrow> ''''
                   | t # ts \<Rightarrow> t @ concat (map (\<lambda>u. '' '' @ u) ts)))]
         @ (case file' s of FileObj x \<Rightarrow> [(''files'', FileV x)] | _ \<Rightarrow> []))]"
proof -
  have issued: "network_calls (snd (handleSubmit BACKEND_URL today fetched s)) =
                  [Fetch_add_media (BACKEND_URL @ ''/add-media'')
                     (formDataToSend (formData s) (file' s))]"
    by (simp add: handleSubmit_def submit_try_def handleClose_def network_calls_def Let_def
          split: sum.splits)
  show ?thesis
    unfolding issued formDataToSend_eq join_eq [of "'' ''" "tags (formData s)"] by simp
qed

text \<open>
  C1. When \<open>submit\<close> fails (the \<open>fetch\<close> rejects, the body cannot be read as JSON, or
  the status is not a success), the state after it is the state before it with the
  uploading flag cleared: title, description, date, tags and file are unchanged. A failure
  alert is shown.
\<close>

theorem submit_failure_keeps_draft:
  assumes "case fetched of Inl err \<Rightarrow> True | Inr res \<Rightarrow> \<not> ok res \<or> isl (json res)"
  shows "fst (handleSubmit BACKEND_URL today fetched s) = s\<lparr>isUploading := False\<rparr> \<and>
         (Alert ''Failed to upload memory'' \<in> set (snd (handleSubmit BACKEND_URL today fetched s)) \<or>
          Alert ''Something went wrong while uploading''
            \<in> set (snd (handleSubmit BACKEND_URL today fetched s)))"
  using assms
  by (auto simp: handleSubmit_def submit_try_def Let_def split: sum.splits)

theorem submit_failure_keeps_draft_witness:
  "(case (Inr (Response False (Inr (JObj [(''error'', JStr ''Upload failed'')])) (Inl (Error ''body stream already read'')))
          :: json fetch_result) of
      Inl err \<Rightarrow> True | Inr res \<Rightarrow> \<not> ok res \<or> isl (json res)) \<and>
   fst (handleSubmit ''http://localhost:5000'' ''2024-05-02''
          (Inr (Response False (Inr (JObj [(''error'', JStr ''Upload failed'')])) (Inl (Error ''body stream already read''))))
          (onChange_file (Some (File ''beach.jpg''))
             (handleTagToggle ''Vacation'' (onChange_text ''Beach Day'' (initial_state ''2024-05-01''))))) =
     \<lparr>file' = FileObj (File ''beach.jpg''), isUploading = False, isGeneratingTags = False,
      formData = \<lparr>text' = ''Beach Day'', description = '''', upload_date = ''2024-05-01'',
                  tags = [''Vacation'']\<rparr>\<rparr>"
proof -
  let ?fetched = "Inr (Response False (Inr (JObj [(''error'', JStr ''Upload failed'')])) (Inl (Error ''body stream already read'')))
                    :: json fetch_result"
  let ?s = "onChange_file (Some (File ''beach.jpg''))
              (handleTagToggle ''Vacation'' (onChange_text ''Beach Day'' (initial_state ''2024-05-01'')))"
  have failed: "case ?fetched of Inl err \<Rightarrow> True | Inr res \<Rightarrow> \<not> ok res \<or> isl (json res)"
    by simp
  have kept: "fst (handleSubmit ''http://localhost:5000'' ''2024-05-02'' ?fetched ?s) =
                ?s\<lparr>isUploading := False\<rparr>"
    using submit_failure_keeps_draft [OF failed] by blast
  have "?s\<lparr>isUploading := False\<rparr> =
          \<lparr>file' = FileObj (File ''beach.jpg''), isUploading = False, isGeneratingTags = False,
           formData = \<lparr>text' = ''Beach Day'', description = '''', upload_date = ''2024-05-01'',
                       tags = [''Vacation'']\<rparr>\<rparr>"
    by (simp add: onChange_file_def handleTagToggle_def onChange_text_def initial_state_def)
  with failed kept show ?thesis by simp
qed




text \<open>
  C8. For a draft with the title \<open>Beach Day\<close>, a selected file and no tags (whatever its
  description and date), a submission answered with HTTP success and the body
  \<open>{media: "img1.jpg"}\<close> calls the success callback exactly once, between the success
  alert and the closing of the dialog, with an object whose \<open>tags\<close> is the empty string
  and whose \<open>media\<close> is \<open>img1.jpg\<close>.
\<close>

theorem submit_beach_day_callback:
  "\<exists>sent arg.
     snd (handleSubmit BACKEND_URL today
            (Inr (Response True (Inr (JObj [(''media'', JStr ''img1.jpg'')])) later_text))
            \<lparr>file' = FileObj f, isUploading = u, isGeneratingTags = g,
             formData = \<lparr>text' = ''Beach Day'', description = d, upload_date = date, tags = []\<rparr>\<rparr>) =
       [PreventDefault, Fetch_add_media (BACKEND_URL @ ''/add-media'') sent,
        Alert ''Memory uploaded successfully!'', OnSuccess arg, OnClose] \<and>
     obj_get arg ''tags'' = StrV '''' \<and>
     obj_get arg ''media'' = StrV ''img1.jpg'' \<and>
     obj_get arg ''text'' = StrV ''Beach Day''"
  by (simp add: handleSubmit_def submit_try_def handleClose_def formDataToSend_def
        append_entry_def fromEntries_def obj_get_def read_media_def Let_def)

end
